theory Spec2Isabelle
  imports Complex_Main "HOL-Library.Sublist"
begin

section \<open>The student record service (backend/index.js)\<close>

text \<open>
  The program is one Express application: a JSON file on disk (\<open>DB_FILE\<close>), two helpers
  \<open>loadStudents\<close> and \<open>saveStudents\<close>, and the handlers of \<open>GET /\<close>, \<open>GET /students\<close> and
  \<open>POST /students\<close>. The embedding follows the file top to bottom. What JavaScript does
  implicitly is written out: values carry their dynamic type, a thrown exception is the
  \<open>Inl\<close> of a sum, the file system and the console are a state that every function takes
  and returns.
\<close>

subsection \<open>JavaScript values\<close>

text \<open>
  A number is a finite value or one of the two infinities: \<open>JSON.parse\<close> gives \<open>Infinity\<close> for
  a literal beyond the range of a double (\<open>1e999\<close>). Every finite double is a rational;
  \<open>-0\<close> is not told apart from \<open>0\<close>, which it equals. \<open>NaN\<close> is not a value here: neither
  \<open>JSON.parse\<close> nor \<open>Date.now()\<close> produces it.
\<close>

datatype number = Finite rat | Infinity | Minus_Infinity

text \<open>
  The values the handlers see: what \<open>JSON.parse\<close> builds (null, booleans, numbers, strings,
  arrays, objects), \<open>undefined\<close> for a property that is not there, and \<open>JBuiltin\<close> for a
  function or object of the runtime reached through the prototype chain (always truthy,
  never a string). An object is its list of own properties; the first entry of a key
  is the property. A string is the list of the bytes of its UTF-8 text: whether a text
  is empty and whether it contains another do not depend on the encoding.
\<close>

datatype jsval =
    JUndefined
  | JNull
  | JBool bool
  | JNum number
  | JStr string
  | JArr "jsval list"
  | JObj "(string \<times> jsval) list"
  | JBuiltin string

datatype error = TypeError | SyntaxError | IOError

text \<open>\<open>if (v)\<close>, \<open>!v\<close>, \<open>v || d\<close>: the values that count as false are \<open>undefined\<close>, \<open>null\<close>,
  \<open>false\<close>, \<open>0\<close> and the empty string.\<close>

fun truthy :: "jsval \<Rightarrow> bool" where
  "truthy JUndefined = False"
| "truthy JNull = False"
| "truthy (JBool b) = b"
| "truthy (JNum n) = (n \<noteq> Finite 0)"
| "truthy (JStr s) = (s \<noteq> [])"
| "truthy (JArr xs) = True"
| "truthy (JObj ps) = True"
| "truthy (JBuiltin f) = True"

text \<open>The properties every plain object inherits from \<open>Object.prototype\<close>.\<close>

definition object_prototype_keys :: "string list" where
  "object_prototype_keys =
     [''constructor'', ''__defineGetter__'', ''__defineSetter__'', ''hasOwnProperty'',
      ''__lookupGetter__'', ''__lookupSetter__'', ''isPrototypeOf'',
      ''propertyIsEnumerable'', ''toString'', ''valueOf'', ''__proto__'',
      ''toLocaleString'']"

text \<open>
  What the program takes from the JavaScript runtime and not from its own text: the
  properties of the values that are not objects (the indices and \<open>length\<close> of strings and
  arrays, the methods of their prototypes), and the case mapping of
  \<open>String.prototype.toLowerCase\<close>, which follows the Unicode tables. Both are parameters of
  the handlers.
\<close>

record runtime =
  rt_prop :: "jsval \<Rightarrow> string \<Rightarrow> jsval"
  rt_lower :: "string \<Rightarrow> string"

text \<open>
  \<open>v[k]\<close> on a value that is neither \<open>undefined\<close> nor \<open>null\<close>. An object answers with its
  own property, else with what it inherits, else with \<open>undefined\<close>; the other values
  answer as the runtime says.
\<close>

fun read_prop :: "runtime \<Rightarrow> jsval \<Rightarrow> string \<Rightarrow> jsval" where
  "read_prop rt (JObj ps) k =
     (case map_of ps k of
        Some v \<Rightarrow> v
      | None \<Rightarrow> if k \<in> set object_prototype_keys then JBuiltin k else JUndefined)"
| "read_prop rt v k = rt_prop rt v k"

fun nullish :: "jsval \<Rightarrow> bool" where
  "nullish JUndefined = True"
| "nullish JNull = True"
| "nullish v = False"

text \<open>\<open>v[k]\<close> on any value: reading a property of \<open>undefined\<close> or \<open>null\<close> throws.\<close>

definition get_prop :: "runtime \<Rightarrow> jsval \<Rightarrow> string \<Rightarrow> error + jsval" where
  "get_prop rt v k = (if nullish v then Inl TypeError else Inr (read_prop rt v k))"

subsection \<open>Strings\<close>

text \<open>\<open>s.includes(pat)\<close>: \<open>pat\<close> occurs in \<open>s\<close> as a contiguous block.\<close>

fun str_includes :: "string \<Rightarrow> string \<Rightarrow> bool" where
  "str_includes [] pat = (pat = [])"
| "str_includes (c # cs) pat = (prefix pat (c # cs) \<or> str_includes cs pat)"

text \<open>
  \<open>v.toLowerCase()\<close>: only a string has the method, and the runtime maps its letters. On
  \<open>undefined\<close> and \<open>null\<close> the property read throws; on every other value the property is
  missing (no JSON value and no built-in holds a function under that name) and the call
  throws.
\<close>

fun toLowerCase :: "runtime \<Rightarrow> jsval \<Rightarrow> error + string" where
  "toLowerCase rt (JStr s) = Inr (rt_lower rt s)"
| "toLowerCase rt v = Inl TypeError"

subsection \<open>JSON text\<close>

text \<open>
  What \<open>JSON.stringify\<close> keeps of a value: a property holding \<open>undefined\<close> or a function is
  left out, an array element of that kind becomes \<open>null\<close>, and a number that is not finite
  is written as \<open>null\<close>. \<open>json_of v\<close> is the value that parsing the text of \<open>v\<close> gives back.
\<close>

fun serialisable :: "jsval \<Rightarrow> bool" where
  "serialisable JUndefined = False"
| "serialisable (JBuiltin f) = False"
| "serialisable v = True"

fun json_of :: "jsval \<Rightarrow> jsval"
  and json_elems :: "jsval list \<Rightarrow> jsval list"
  and json_props :: "(string \<times> jsval) list \<Rightarrow> (string \<times> jsval) list" where
  "json_of (JArr xs) = JArr (json_elems xs)"
| "json_of (JObj ps) = JObj (json_props ps)"
| "json_of (JNum (Finite r)) = JNum (Finite r)"
| "json_of (JNum Infinity) = JNull"
| "json_of (JNum Minus_Infinity) = JNull"
| "json_of v = v"
| "json_elems [] = []"
| "json_elems (x # xs) = (if serialisable x then json_of x else JNull) # json_elems xs"
| "json_props [] = []"
| "json_props ((k, v) # ps) =
     (if serialisable v then [(k, json_of v)] else []) @ json_props ps"

text \<open>A value that JSON text holds and gives back: no \<open>undefined\<close>, no built-in and no
  infinite number anywhere inside.\<close>

fun is_json :: "jsval \<Rightarrow> bool"
  and are_json :: "jsval list \<Rightarrow> bool"
  and props_json :: "(string \<times> jsval) list \<Rightarrow> bool" where
  "is_json JUndefined = False"
| "is_json (JBuiltin f) = False"
| "is_json (JNum Infinity) = False"
| "is_json (JNum Minus_Infinity) = False"
| "is_json (JArr xs) = are_json xs"
| "is_json (JObj ps) = props_json ps"
| "is_json v = True"
| "are_json [] = True"
| "are_json (x # xs) = (is_json x \<and> are_json xs)"
| "props_json [] = True"
| "props_json ((k, v) # ps) = (is_json v \<and> props_json ps)"

text \<open>
  The content of a file, as far as the program can tell texts apart: the empty text, a
  text that \<open>JSON.parse\<close> rejects, or a text that parses to a value.
\<close>

datatype content = Empty | Malformed | Json jsval

fun JSON_parse :: "content \<Rightarrow> error + jsval" where
  "JSON_parse Empty = Inl SyntaxError"
| "JSON_parse Malformed = Inl SyntaxError"
| "JSON_parse (Json v) = Inr v"

text \<open>\<open>JSON.stringify(v, null, 2)\<close> is \<open>undefined\<close> (here \<open>None\<close>) when \<open>v\<close> itself cannot be
  written, and is never the empty text.\<close>

definition JSON_stringify :: "jsval \<Rightarrow> content option" where
  "JSON_stringify v = (if serialisable v then Some (Json (json_of v)) else None)"

subsection \<open>The file system and the console\<close>

text \<open>
  The state outside the process: the content of \<open>DB_FILE\<close> (\<open>None\<close> when the file does not
  exist), whether reading or writing it fails (a permission, a full disk), and the
  lines written to the console.
\<close>

datatype log_entry =
    Error_reading error
  | Error_writing error
  | Added_student jsval

record world =
  db_file :: "content option"
  read_fails :: bool
  write_fails :: bool
  console :: "log_entry list"

definition existsSync :: "world \<Rightarrow> bool" where
  "existsSync w = (db_file w \<noteq> None)"

definition readFileSync :: "world \<Rightarrow> error + content" where
  "readFileSync w =
     (if read_fails w then Inl IOError
      else case db_file w of None \<Rightarrow> Inl IOError | Some c \<Rightarrow> Inr c)"

text \<open>A write that fails leaves the file as it was; \<open>writeFileSync\<close> given \<open>undefined\<close> as
  data throws a \<open>TypeError\<close> before it touches the file.\<close>

definition writeFileSync :: "content option \<Rightarrow> world \<Rightarrow> error + world" where
  "writeFileSync dataJSON w =
     (case dataJSON of
        None \<Rightarrow> Inl TypeError
      | Some c \<Rightarrow> if write_fails w then Inl IOError else Inr (w\<lparr>db_file := Some c\<rparr>))"

definition console_log :: "log_entry \<Rightarrow> world \<Rightarrow> world" where
  "console_log l w = w\<lparr>console := console w @ [l]\<rparr>"

subsection \<open>The helpers of the JSON database\<close>

text \<open>\<open>loadStudents\<close>: the whole body is inside \<open>try\<close>, and \<open>catch\<close> logs and returns \<open>[]\<close>.\<close>

definition loadStudents :: "world \<Rightarrow> jsval \<times> world" where
  "loadStudents w =
     (if existsSync w then
        (case readFileSync w of
           Inl e \<Rightarrow> (JArr [], console_log (Error_reading e) w)
         | Inr dataJSON \<Rightarrow>
             if dataJSON = Empty then (JArr [], w)
             else (case JSON_parse dataJSON of
                     Inl e \<Rightarrow> (JArr [], console_log (Error_reading e) w)
                   | Inr v \<Rightarrow> (v, w)))
      else (JArr [], w))"

text \<open>\<open>saveStudents\<close>: \<open>try\<close> around stringify and write, \<open>catch\<close> logs; nothing is returned.\<close>

definition saveStudents :: "jsval \<Rightarrow> world \<Rightarrow> world" where
  "saveStudents students w =
     (case writeFileSync (JSON_stringify students) w of
        Inl e \<Rightarrow> console_log (Error_writing e) w
      | Inr w' \<Rightarrow> w')"

subsection \<open>Requests and responses\<close>

text \<open>
  A value of \<open>req.query\<close>: a string, or an array or an object when the parameter is
  repeated or written with brackets (\<open>searchBy[]=name\<close>, \<open>query[a]=b\<close>). \<open>None\<close> is a
  parameter that is absent.
\<close>

datatype qparam = QStr string | QArr "qparam list" | QObj "(string \<times> qparam) list"

record query_string =
  searchBy :: "qparam option"
  query :: "qparam option"

fun q_truthy :: "qparam option \<Rightarrow> bool" where
  "q_truthy None = False"
| "q_truthy (Some (QStr s)) = (s \<noteq> [])"
| "q_truthy (Some (QArr xs)) = True"
| "q_truthy (Some (QObj ps)) = True"

text \<open>
  A parameter used as a property key is converted to a string: an array joins its
  elements with commas, an object is \<open>[object Object]\<close>, unless it has a \<open>toString\<close>
  property of its own, which is not a function, and the conversion throws. An absent
  parameter is the key \<open>undefined\<close>.
\<close>

fun to_string :: "qparam \<Rightarrow> error + string"
  and join_strings :: "qparam list \<Rightarrow> error + string" where
  "to_string (QStr s) = Inr s"
| "to_string (QArr xs) = join_strings xs"
| "to_string (QObj ps) =
     (if ''toString'' \<in> set (map fst ps) then Inl TypeError else Inr ''[object Object]'')"
| "join_strings [] = Inr []"
| "join_strings [x] = to_string x"
| "join_strings (x # y # ys) =
     (case to_string x of
        Inl e \<Rightarrow> Inl e
      | Inr s \<Rightarrow> (case join_strings (y # ys) of
                   Inl e \<Rightarrow> Inl e
                 | Inr t \<Rightarrow> Inr (s @ '','' @ t)))"

fun to_key :: "qparam option \<Rightarrow> error + string" where
  "to_key None = Inr ''undefined''"
| "to_key (Some p) = to_string p"

text \<open>\<open>query.toLowerCase()\<close>: an array or an object has no such method, and reading it
  from \<open>undefined\<close> throws.\<close>

fun q_toLowerCase :: "runtime \<Rightarrow> qparam option \<Rightarrow> error + string" where
  "q_toLowerCase rt (Some (QStr s)) = Inr (rt_lower rt s)"
| "q_toLowerCase rt (Some (QArr xs)) = Inl TypeError"
| "q_toLowerCase rt (Some (QObj ps)) = Inl TypeError"
| "q_toLowerCase rt None = Inl TypeError"

text \<open>
  What a handler sends. \<open>res.json\<close> sends the JSON text of its argument, so the body of
  the model is the value the client parses. A handler that throws sends nothing: its
  result is \<open>Inl\<close> the exception, which Express answers with its own 500 page.
\<close>

datatype payload = Json_body jsval | Text_body string

record response =
  status :: nat
  body :: payload

definition res_json :: "nat \<Rightarrow> jsval \<Rightarrow> response" where
  "res_json st v = \<lparr>status = st, body = Json_body (json_of v)\<rparr>"

definition res_send :: "string \<Rightarrow> response" where
  "res_send s = \<lparr>status = 200, body = Text_body s\<rparr>"

subsection \<open>GET /\<close>

definition get_root :: "world \<Rightarrow> (error + response) \<times> world" where
  "get_root w = (Inr (res_send ''Student Info Backend Running''), w)"

subsection \<open>GET /students\<close>

text \<open>The callback of \<open>students.filter\<close>: \<open>student[searchBy]\<close>, tested and then lowercased.\<close>

definition matches :: "runtime \<Rightarrow> qparam option \<Rightarrow> string \<Rightarrow> jsval \<Rightarrow> error + bool" where
  "matches rt sb lowerQuery student =
     (case to_key sb of
        Inl e \<Rightarrow> Inl e
      | Inr k \<Rightarrow>
          (case get_prop rt student k of
             Inl e \<Rightarrow> Inl e
           | Inr v \<Rightarrow>
               if truthy v then
                 (case toLowerCase rt v of
                    Inl e \<Rightarrow> Inl e
                  | Inr s \<Rightarrow> Inr (str_includes s lowerQuery))
               else Inr False))"

text \<open>\<open>Array.prototype.filter\<close> with a callback that may throw: the first exception ends
  the loop.\<close>

fun filter_students :: "(jsval \<Rightarrow> error + bool) \<Rightarrow> jsval list \<Rightarrow> error + jsval list" where
  "filter_students f [] = Inr []"
| "filter_students f (x # xs) =
     (case f x of
        Inl e \<Rightarrow> Inl e
      | Inr keep \<Rightarrow>
          (case filter_students f xs of
             Inl e \<Rightarrow> Inl e
           | Inr ys \<Rightarrow> Inr (if keep then x # ys else ys)))"

text \<open>\<open>students.filter(...)\<close>: only an array has the method.\<close>

fun array_filter :: "(jsval \<Rightarrow> error + bool) \<Rightarrow> jsval \<Rightarrow> error + jsval" where
  "array_filter f (JArr xs) =
     (case filter_students f xs of Inl e \<Rightarrow> Inl e | Inr ys \<Rightarrow> Inr (JArr ys))"
| "array_filter f v = Inl TypeError"

definition get_students :: "runtime \<Rightarrow> query_string \<Rightarrow> world \<Rightarrow> (error + response) \<times> world" where
  "get_students rt q w =
     (let (students, w1) = loadStudents w in
      if \<not> q_truthy (searchBy q) \<or> \<not> q_truthy (query q) then
        (Inr (res_json 200 (JObj [(''students'', students)])), w1)
      else
        (case q_toLowerCase rt (query q) of
           Inl e \<Rightarrow> (Inl e, w1)
         | Inr lowerQuery \<Rightarrow>
             (case array_filter (matches rt (searchBy q) lowerQuery) students of
                Inl e \<Rightarrow> (Inl e, w1)
              | Inr filteredStudents \<Rightarrow>
                  (Inr (res_json 200 (JObj [(''students'', filteredStudents)])), w1))))"

subsection \<open>POST /students\<close>

text \<open>The seven properties the handler takes out of \<open>req.body\<close>, in the order of the source.\<close>

record fields =
  f_name :: jsval
  f_rollNo :: jsval
  f_universityId :: jsval
  f_bloodGroup :: jsval
  f_address :: jsval
  f_year :: jsval
  f_department :: jsval

definition body_fields :: "runtime \<Rightarrow> jsval \<Rightarrow> fields" where
  "body_fields rt b =
     \<lparr>f_name = read_prop rt b ''name'',
      f_rollNo = read_prop rt b ''rollNo'',
      f_universityId = read_prop rt b ''universityId'',
      f_bloodGroup = read_prop rt b ''bloodGroup'',
      f_address = read_prop rt b ''address'',
      f_year = read_prop rt b ''year'',
      f_department = read_prop rt b ''department''\<rparr>"

text \<open>The destructuring of \<open>req.body\<close> throws when the body is \<open>undefined\<close> or \<open>null\<close>.\<close>

definition destructure :: "runtime \<Rightarrow> jsval \<Rightarrow> error + fields" where
  "destructure rt b = (if nullish b then Inl TypeError else Inr (body_fields rt b))"

definition missing_fields_message :: string where
  "missing_fields_message =
     ''Missing required fields: name, rollNo, universityId, year, department''"

definition newStudent :: "int \<Rightarrow> fields \<Rightarrow> jsval" where
  "newStudent now f =
     JObj [(''id'', JNum (Finite (of_int now))),
           (''name'', f_name f),
           (''rollNo'', f_rollNo f),
           (''universityId'', f_universityId f),
           (''bloodGroup'', f_bloodGroup f),
           (''address'', if truthy (f_address f) then f_address f else JStr []),
           (''year'', f_year f),
           (''department'', f_department f)]"

text \<open>\<open>students.push(x)\<close>: only an array has the method.\<close>

fun array_push :: "jsval \<Rightarrow> jsval \<Rightarrow> error + jsval" where
  "array_push (JArr xs) x = Inr (JArr (xs @ [x]))"
| "array_push v x = Inl TypeError"

text \<open>\<open>now\<close> is what \<open>Date.now()\<close> returns during the request.\<close>

definition post_students :: "runtime \<Rightarrow> int \<Rightarrow> jsval \<Rightarrow> world \<Rightarrow> (error + response) \<times> world" where
  "post_students rt now req_body w =
     (case destructure rt req_body of
        Inl e \<Rightarrow> (Inl e, w)
      | Inr f \<Rightarrow>
          if \<not> truthy (f_name f) \<or> \<not> truthy (f_rollNo f) \<or> \<not> truthy (f_universityId f)
             \<or> \<not> truthy (f_year f) \<or> \<not> truthy (f_department f)
          then (Inr (res_json 400 (JObj [(''error'', JStr missing_fields_message)])), w)
          else
            (let (students, w1) = loadStudents w in
             case array_push students (newStudent now f) of
               Inl e \<Rightarrow> (Inl e, w1)
             | Inr students' \<Rightarrow>
                 (let w2 = saveStudents students' w1;
                      w3 = console_log (Added_student (newStudent now f)) w2
                  in (Inr (res_json 201 (JObj [(''message'', JStr ''Student added''),
                                               (''student'', newStudent now f)])), w3))))"

subsection \<open>Example data\<close>

text \<open>Two stored records with the fields of the record table, a store that holds them, an
  empty store, a creation payload without the optional fields and the record it becomes,
  the same payload with the address \<open>null\<close>, and with the year \<open>1e999\<close> as \<open>JSON.parse\<close> reads
  it.\<close>

definition alice :: jsval where
  "alice = JObj [(''id'', JNum (Finite 1700000000000)), (''name'', JStr ''Alice''),
                 (''rollNo'', JStr ''21''), (''universityId'', JStr ''U100''),
                 (''bloodGroup'', JStr ''A+''), (''address'', JStr []),
                 (''year'', JStr ''2''), (''department'', JStr ''CS'')]"

definition bob :: jsval where
  "bob = JObj [(''id'', JNum (Finite 1700000000500)), (''name'', JStr ''bob''),
               (''rollNo'', JStr ''22''), (''universityId'', JStr ''U101''),
               (''bloodGroup'', JStr ''O-''), (''address'', JStr ''12 Lake Road''),
               (''year'', JStr ''3''), (''department'', JStr ''ECE'')]"

definition two_students :: world where
  "two_students = \<lparr>db_file = Some (Json (JArr [alice, bob])), read_fails = False,
                    write_fails = False, console = []\<rparr>"

definition no_students :: world where
  "no_students = \<lparr>db_file = Some (Json (JArr [])), read_fails = False,
                   write_fails = False, console = []\<rparr>"

definition carol_payload :: "(string \<times> jsval) list" where
  "carol_payload = [(''name'', JStr ''Carol''), (''rollNo'', JStr ''23''),
                    (''universityId'', JStr ''U102''), (''year'', JStr ''1''),
                    (''department'', JStr ''Math'')]"



definition carol :: jsval where
  "carol = JObj [(''id'', JNum (Finite 1700000001000)), (''name'', JStr ''Carol''),
                 (''rollNo'', JStr ''23''), (''universityId'', JStr ''U102''),
                 (''address'', JStr []), (''year'', JStr ''1''),
                 (''department'', JStr ''Math'')]"

text \<open>
  A runtime for the examples, whose texts are ASCII and whose values are objects: on
  ASCII text \<open>toLowerCase\<close> turns the letters A to Z into a to z and keeps every other
  character, and the values that are not objects are given no properties.
\<close>

definition lower_char :: "char \<Rightarrow> char" where
  "lower_char c =
     (case map_of (zip ''ABCDEFGHIJKLMNOPQRSTUVWXYZ'' ''abcdefghijklmnopqrstuvwxyz'') c of
        Some l \<Rightarrow> l
      | None \<Rightarrow> c)"

definition ascii_lower :: "string \<Rightarrow> string" where
  "ascii_lower s = map lower_char s"

definition bare_runtime :: runtime where
  "bare_runtime = \<lparr>rt_prop = (\<lambda>v k. JUndefined), rt_lower = ascii_lower\<rparr>"

section \<open>Properties\<close>

subsection \<open>JSON text and strings\<close>

lemma is_json_serialisable: "is_json v \<Longrightarrow> serialisable v"
  by (cases v) simp_all

text \<open>Writing a JSON value and parsing the text gives the value back.\<close>

lemma json_of_fixed:
  "is_json v \<Longrightarrow> json_of v = v"
  "are_json xs \<Longrightarrow> json_elems xs = xs"
  "props_json ps \<Longrightarrow> json_props ps = ps"
  by (induction v and xs and ps rule: is_json_are_json_props_json.induct)
     (simp_all add: is_json_serialisable)

text \<open>What \<open>JSON.stringify\<close> writes parses to a JSON value.\<close>

lemma json_of_is_json:
  "serialisable v \<Longrightarrow> is_json (json_of v)"
  "are_json (json_elems xs)"
  "props_json (json_props ps)"
  by (induction v and xs and ps rule: json_of_json_elems_json_props.induct) simp_all

text \<open>Writing twice is writing once.\<close>

lemma json_of_twice:
  "json_of (json_of v) = json_of v"
  "json_elems (json_elems xs) = json_elems xs"
proof -
  show "json_of (json_of v) = json_of v"
  proof (cases "serialisable v")
    case True
    then show ?thesis by (simp add: json_of_fixed json_of_is_json)
  next
    case False
    then show ?thesis by (cases v) simp_all
  qed
  show "json_elems (json_elems xs) = json_elems xs"
    by (simp add: json_of_fixed json_of_is_json)
qed

lemma json_elems_append: "json_elems (xs @ ys) = json_elems xs @ json_elems ys"
  by (induction xs) simp_all

lemma props_json_map_of: "props_json ps \<Longrightarrow> map_of ps k = Some v \<Longrightarrow> is_json v"
  by (induction ps) (auto split: if_splits)

text \<open>\<open>str_includes\<close> is the contiguous-sublist relation of the library.\<close>

lemma str_includes_sublist: "str_includes s pat = sublist pat s"
  by (induction s) (simp_all add: sublist_Cons_right)

subsection \<open>Loading only writes to the console\<close>

lemma loadStudents_snd:
  "snd (loadStudents w) = w\<lparr>console := console (snd (loadStudents w))\<rparr>"
  by (simp add: loadStudents_def console_log_def split: sum.splits)

lemma loadStudents_db_file: "db_file (snd (loadStudents w)) = db_file w"
  by (simp add: loadStudents_def console_log_def split: sum.splits)

lemma loadStudents_flags:
  "read_fails (snd (loadStudents w)) = read_fails w"
  "write_fails (snd (loadStudents w)) = write_fails w"
  by (simp_all add: loadStudents_def console_log_def split: sum.splits)

lemma loadStudents_same_files:
  assumes "db_file w = db_file w'" and "read_fails w = read_fails w'"
  shows "fst (loadStudents w) = fst (loadStudents w')"
  using assms
  by (simp add: loadStudents_def existsSync_def readFileSync_def
           split: sum.splits option.splits)

text \<open>A readable file that parses: the value comes back as it is, and nothing is logged.\<close>

lemma loadStudents_Json:
  "db_file w = Some (Json v) \<Longrightarrow> \<not> read_fails w \<Longrightarrow> loadStudents w = (v, w)"
  by (simp add: loadStudents_def existsSync_def readFileSync_def)

subsection \<open>The two parts of the result of GET /students\<close>

lemma get_students_snd: "snd (get_students rt q w) = snd (loadStudents w)"
  by (simp add: get_students_def split: prod.splits sum.splits)

lemma get_students_fst:
  "fst (get_students rt q w) =
     (let students = fst (loadStudents w) in
      if \<not> q_truthy (searchBy q) \<or> \<not> q_truthy (query q) then
        Inr (res_json 200 (JObj [(''students'', students)]))
      else
        (case q_toLowerCase rt (query q) of
           Inl e \<Rightarrow> Inl e
         | Inr lowerQuery \<Rightarrow>
             (case array_filter (matches rt (searchBy q) lowerQuery) students of
                Inl e \<Rightarrow> Inl e
              | Inr filteredStudents \<Rightarrow>
                  Inr (res_json 200 (JObj [(''students'', filteredStudents)])))))"
  by (simp add: get_students_def split: prod.splits sum.splits)

lemma get_students_same_files:
  assumes "db_file w = db_file w'" and "read_fails w = read_fails w'"
  shows "fst (get_students rt q w) = fst (get_students rt q w')"
  by (simp only: get_students_fst loadStudents_same_files [OF assms])

lemmas eval_get =
  get_students_def loadStudents_def existsSync_def readFileSync_def console_log_def
  matches_def get_prop_def bare_runtime_def ascii_lower_def lower_char_def res_json_def

subsection \<open>The filter of GET /students\<close>

text \<open>Every exception of the filter is a \<open>TypeError\<close>, and one element that throws makes the
  whole filter throw.\<close>

lemma to_string_TypeError:
  "to_string p = Inl e \<Longrightarrow> e = TypeError"
  "join_strings ps = Inl e \<Longrightarrow> e = TypeError"
  by (induction p and ps rule: to_string_join_strings.induct)
     (auto split: if_splits sum.splits)

lemma toLowerCase_TypeError: "toLowerCase rt v = Inl e \<Longrightarrow> e = TypeError"
  by (cases v) simp_all

lemma matches_TypeError: "matches rt sb lq x = Inl e \<Longrightarrow> e = TypeError"
  by (cases sb)
     (auto simp: matches_def get_prop_def
           dest: to_string_TypeError toLowerCase_TypeError split: sum.splits if_splits)

lemma filter_students_throws:
  assumes "x \<in> set xs" and "f x = Inl TypeError"
    and "\<And>y e. f y = Inl e \<Longrightarrow> e = TypeError"
  shows "filter_students f xs = Inl TypeError"
  using assms(1,2)
proof (induction xs)
  case Nil
  then show ?case by simp
next
  case (Cons y ys)
  show ?case
  proof (cases "f y")
    case (Inl e)
    with assms(3) show ?thesis by simp
  next
    case (Inr keep)
    with Cons have "filter_students f ys = Inl TypeError" by auto
    with Inr show ?thesis by simp
  qed
qed

lemma filter_students_total:
  assumes "\<forall>x \<in> set xs. f x = Inr (P x)"
  shows "filter_students f xs = Inr (filter P xs)"
  using assms by (induction xs) simp_all

lemma are_json_filter: "are_json xs \<Longrightarrow> are_json (filter P xs)"
  by (induction xs) simp_all

text \<open>A record whose value under the key is a number other than zero makes the callback
  throw: the number is truthy and has no \<open>toLowerCase\<close>.\<close>

lemma matches_number:
  assumes "map_of ps k = Some (JNum n)" and "n \<noteq> Finite 0"
  shows "matches rt (Some (QStr k)) lq (JObj ps) = Inl TypeError"
  using assms by (simp add: matches_def get_prop_def)

text \<open>Without a filter the response is the stored array.\<close>

lemma get_students_unfiltered:
  assumes "\<not> q_truthy (searchBy q) \<or> \<not> q_truthy (query q)"
    and "fst (loadStudents w) = JArr xs" and "are_json xs"
  shows "fst (get_students rt q w) =
     Inr \<lparr>status = 200, body = Json_body (JObj [(''students'', JArr xs)])\<rparr>"
  using assms by (simp add: get_students_fst res_json_def json_of_fixed)

text \<open>Where every record holds a string, or nothing truthy, under the key, the filter keeps
  the records whose string is not empty and contains the query, both lowercased.\<close>

lemma matches_string_field:
  assumes "\<not> nullish x"
    and "truthy (read_prop rt x k) \<longrightarrow> (\<exists>v. read_prop rt x k = JStr v)"
  shows "matches rt (Some (QStr k)) (rt_lower rt s) x =
     Inr (case read_prop rt x k of
            JStr v \<Rightarrow> v \<noteq> [] \<and> sublist (rt_lower rt s) (rt_lower rt v)
          | _ \<Rightarrow> False)"
  using assms
  by (cases "read_prop rt x k")
     (auto simp: matches_def get_prop_def str_includes_sublist simp del: read_prop.simps)

lemma get_students_filtered:
  assumes load: "fst (loadStudents w) = JArr xs" and stored: "are_json xs"
    and params: "k \<noteq> []" "s \<noteq> []"
    and strings: "\<forall>x \<in> set xs. \<not> nullish x \<and>
        (truthy (read_prop rt x k) \<longrightarrow> (\<exists>v. read_prop rt x k = JStr v))"
  shows "fst (get_students rt \<lparr>searchBy = Some (QStr k), query = Some (QStr s)\<rparr> w) =
     Inr \<lparr>status = 200,
          body = Json_body (JObj [(''students'',
            JArr (filter (\<lambda>x. case read_prop rt x k of
                                 JStr v \<Rightarrow> v \<noteq> [] \<and> sublist (rt_lower rt s) (rt_lower rt v)
                               | _ \<Rightarrow> False) xs))])\<rparr>"
proof -
  let ?P = "\<lambda>x. case read_prop rt x k of
                   JStr v \<Rightarrow> v \<noteq> [] \<and> sublist (rt_lower rt s) (rt_lower rt v)
                 | _ \<Rightarrow> False"
  have "\<forall>x \<in> set xs. matches rt (Some (QStr k)) (rt_lower rt s) x = Inr (?P x)"
    using strings matches_string_field [of _ rt k s] by blast
  then have "filter_students (matches rt (Some (QStr k)) (rt_lower rt s)) xs = Inr (filter ?P xs)"
    by (rule filter_students_total)
  then show ?thesis
    using params are_json_filter [OF stored, of ?P]
    by (simp add: get_students_fst load res_json_def json_of_fixed del: read_prop.simps)
qed

text \<open>The example of the specification: \<open>name\<close> and \<open>ali\<close> find Alice, \<open>department\<close> and \<open>math\<close>
  find nobody, and a key that no record has finds nobody.\<close>

lemma filter_examples:
  "fst (get_students bare_runtime \<lparr>searchBy = Some (QStr ''name''), query = Some (QStr ''ali'')\<rparr>
          two_students)
     = Inr \<lparr>status = 200, body = Json_body (JObj [(''students'', JArr [alice])])\<rparr>"
  "fst (get_students bare_runtime \<lparr>searchBy = Some (QStr ''department''), query = Some (QStr ''math'')\<rparr>
          two_students)
     = Inr \<lparr>status = 200, body = Json_body (JObj [(''students'', JArr [])])\<rparr>"
  "fst (get_students bare_runtime \<lparr>searchBy = Some (QStr ''dept''), query = Some (QStr ''CS'')\<rparr>
          two_students)
     = Inr \<lparr>status = 200, body = Json_body (JObj [(''students'', JArr [])])\<rparr>"
  by (simp_all add: eval_get two_students_def alice_def bob_def object_prototype_keys_def)

subsection \<open>POST /students: the two outcomes of the validation\<close>

lemma array_push_not_array: "\<forall>xs. v \<noteq> JArr xs \<Longrightarrow> array_push v x = Inl TypeError"
  by (cases v) simp_all

text \<open>None of the names the program reads is a property of \<open>Object.prototype\<close>.\<close>

lemma required_not_inherited:
  "k \<in> set [''name'', ''rollNo'', ''universityId'', ''bloodGroup'', ''address'', ''year'',
             ''department'', ''id''] \<Longrightarrow> k \<notin> set object_prototype_keys"
  by (auto simp: object_prototype_keys_def)

lemma required_truthy:
  assumes "\<forall>k \<in> set [''name'', ''rollNo'', ''universityId'', ''year'', ''department''].
             truthy (read_prop rt b k)"
  shows "truthy (f_name (body_fields rt b))" "truthy (f_rollNo (body_fields rt b))"
    "truthy (f_universityId (body_fields rt b))" "truthy (f_year (body_fields rt b))"
    "truthy (f_department (body_fields rt b))"
  using assms by (simp_all add: body_fields_def)

lemma required_falsy:
  assumes "k \<in> set [''name'', ''rollNo'', ''universityId'', ''year'', ''department'']"
    and "\<not> truthy (read_prop rt b k)"
  shows "\<not> truthy (f_name (body_fields rt b)) \<or> \<not> truthy (f_rollNo (body_fields rt b))
    \<or> \<not> truthy (f_universityId (body_fields rt b)) \<or> \<not> truthy (f_year (body_fields rt b))
    \<or> \<not> truthy (f_department (body_fields rt b))"
proof -
  from assms(1) consider "k = ''name''" | "k = ''rollNo''" | "k = ''universityId''"
    | "k = ''year''" | "k = ''department''"
    by (simp only: list.set insert_iff empty_iff) blast
  then show ?thesis
    using assms(2) by cases (simp_all only: body_fields_def fields.simps simp_thms)
qed

lemma post_students_accepts:
  assumes "\<forall>k \<in> set [''name'', ''rollNo'', ''universityId'', ''year'', ''department''].
             truthy (read_prop rt (JObj ps) k)"
    and "fst (loadStudents w) = JArr xs"
  shows "post_students rt now (JObj ps) w =
           (Inr (res_json 201 (JObj [(''message'', JStr ''Student added''),
                                     (''student'', newStudent now (body_fields rt (JObj ps)))])),
            console_log (Added_student (newStudent now (body_fields rt (JObj ps))))
              (saveStudents (JArr (xs @ [newStudent now (body_fields rt (JObj ps))]))
                 (snd (loadStudents w))))"
proof -
  obtain w1 where l: "loadStudents w = (JArr xs, w1)"
    using assms(2) by (cases "loadStudents w") simp
  show ?thesis
    using required_truthy [OF assms(1)]
    by (subst post_students_def) (simp add: destructure_def l Let_def)
qed

text \<open>A body that can be destructured and has nothing truthy under a required name is
  refused, and the state is the one the handler was given.\<close>

lemma post_students_rejects:
  assumes "k \<in> set [''name'', ''rollNo'', ''universityId'', ''year'', ''department'']"
    and "\<not> nullish b"
    and "\<not> truthy (read_prop rt b k)"
  shows "post_students rt now b w =
           (Inr \<lparr>status = 400, body = Json_body (JObj [(''error'', JStr missing_fields_message)])\<rparr>, w)"
  using required_falsy [OF assms(1,3)] assms(2)
  by (subst post_students_def) (simp add: destructure_def res_json_def)

lemma missing_is_falsy:
  assumes "k \<in> set [''name'', ''rollNo'', ''universityId'', ''year'', ''department'']"
    and "case map_of ps k of None \<Rightarrow> True | Some v \<Rightarrow> \<not> truthy v"
  shows "\<not> truthy (read_prop rt (JObj ps) k)"
proof -
  have "k \<notin> set object_prototype_keys"
    using assms(1) by (intro required_not_inherited) auto
  then show ?thesis
    using assms(2) by (simp split: option.splits)
qed

text \<open>Whatever the request and the state, POST /students leaves the file as it was or
  leaves an array in it: the program never writes anything but an array.\<close>

lemma saveStudents_array:
  "db_file (saveStudents (JArr xs) w) = db_file w
   \<or> db_file (saveStudents (JArr xs) w) = Some (Json (JArr (json_elems xs)))"
  by (simp add: saveStudents_def writeFileSync_def JSON_stringify_def console_log_def)

lemma post_students_writes_array:
  "db_file (snd (post_students rt now b w)) = db_file w
   \<or> (\<exists>xs. db_file (snd (post_students rt now b w)) = Some (Json (JArr xs)))"
proof (cases "\<exists>xs. fst (loadStudents w) = JArr xs")
  case True
  then obtain xs w1 where l: "loadStudents w = (JArr xs, w1)"
    by (cases "loadStudents w") auto
  then have w1: "db_file w1 = db_file w"
    using loadStudents_db_file [of w] by simp
  show ?thesis
    using saveStudents_array [of "xs @ [newStudent now (body_fields rt b)]" w1] w1
    by (auto simp: post_students_def destructure_def l Let_def console_log_def)
next
  case False
  then have "array_push (fst (loadStudents w)) x = Inl TypeError" for x
    by (intro array_push_not_array) simp
  then show ?thesis
    using loadStudents_db_file [of w]
    by (auto simp: post_students_def destructure_def Let_def split: prod.splits)
qed


text \<open>For a JSON object, a required field that is missing or falsy is refused; a later GET
  sees the state the POST was given.\<close>

lemma post_students_missing_field:
  assumes "k \<in> set [''name'', ''rollNo'', ''universityId'', ''year'', ''department'']"
    and "case map_of ps k of None \<Rightarrow> True | Some v \<Rightarrow> \<not> truthy v"
  shows "post_students rt now (JObj ps) w =
           (Inr \<lparr>status = 400,
                 body = Json_body (JObj [(''error'', JStr missing_fields_message)])\<rparr>, w)
         \<and> get_students rt q (snd (post_students rt now (JObj ps) w)) = get_students rt q w"
  using post_students_rejects [OF assms(1) _ missing_is_falsy [OF assms]] by simp

subsection \<open>What loadStudents returns, from the state of the file\<close>

text \<open>The file holds an array and can be read, or it is absent, empty, unparsable or
  unreadable and the array is empty. The one other state is a readable file with JSON
  that is not an array.\<close>

lemma loadStudents_stored:
  assumes "(db_file w = Some (Json (JArr xs)) \<and> \<not> read_fails w)
           \<or> (xs = [] \<and> (db_file w = None \<or> db_file w = Some Empty
                           \<or> db_file w = Some Malformed \<or> read_fails w))"
  shows "fst (loadStudents w) = JArr xs"
  using assms
  by (auto simp: loadStudents_def existsSync_def readFileSync_def split: option.splits)

subsection \<open>The record that POST /students sends and stores\<close>

lemma serialisable_newStudent: "serialisable (newStudent now f)"
  by (simp add: newStudent_def)






lemmas eval_post =
  post_students_def destructure_def body_fields_def newStudent_def saveStudents_def
  writeFileSync_def JSON_stringify_def loadStudents_def existsSync_def readFileSync_def
  console_log_def res_json_def object_prototype_keys_def

section \<open>The claims\<close>

text \<open>
  C1 (the code departs from it). The claim gives the response of every filtered request:
  the records whose value under \<open>searchBy\<close> is truthy and contains the query, and nothing
  for a key that no record has. On the two example records the request
  \<open>searchBy=id&query=1700\<close> gets no such response: \<open>id\<close> is a number, the callback calls
  \<open>toLowerCase\<close> on it and the handler throws. So does \<open>searchBy=toString\<close>, a key no record
  has, which reads the function every object inherits.
\<close>

theorem get_students_filter_throws:
  "fst (get_students bare_runtime \<lparr>searchBy = Some (QStr ''id''), query = Some (QStr ''1700'')\<rparr>
          two_students) = Inl TypeError
   \<and> fst (get_students bare_runtime
            \<lparr>searchBy = Some (QStr ''toString''), query = Some (QStr ''alice'')\<rparr>
            two_students) = Inl TypeError"
  by (simp add: eval_get two_students_def alice_def bob_def object_prototype_keys_def)

theorem get_students_filter_throws_witness:
  "fst (get_students bare_runtime \<lparr>searchBy = Some (QStr ''id''), query = Some (QStr ''1700'')\<rparr>
          two_students)
     \<noteq> Inr \<lparr>status = 200, body = Json_body (JObj [(''students'', JArr [alice, bob])])\<rparr>
   \<and> fst (get_students bare_runtime
            \<lparr>searchBy = Some (QStr ''toString''), query = Some (QStr ''alice'')\<rparr>
            two_students)
     \<noteq> Inr \<lparr>status = 200, body = Json_body (JObj [(''students'', JArr [])])\<rparr>"
  using get_students_filter_throws by simp

text \<open>
  C2 (the code departs from it). The claim promises status 200 for every request over a
  store of records with their integer \<open>id\<close>. Whenever the stored array holds a record
  whose \<open>id\<close> is a number other than zero, \<open>GET /students?searchBy=id&query=s\<close> with any
  non-empty \<open>s\<close> sends no response: the handler throws a \<open>TypeError\<close>.
\<close>

theorem get_students_by_id_throws:
  assumes stored: "db_file w = Some (Json (JArr xs))"
    and readable: "\<not> read_fails w"
    and member: "JObj ps \<in> set xs"
    and num: "map_of ps ''id'' = Some (JNum n)" "n \<noteq> Finite 0"
    and q: "s \<noteq> []"
  shows "get_students rt \<lparr>searchBy = Some (QStr ''id''), query = Some (QStr s)\<rparr> w
           = (Inl TypeError, w)"
proof -
  have "filter_students (matches rt (Some (QStr ''id'')) (rt_lower rt s)) xs = Inl TypeError"
    using member matches_number [OF num] by (rule filter_students_throws) (rule matches_TypeError)
  then show ?thesis
    using q by (simp add: get_students_def loadStudents_Json [OF stored readable])
qed

theorem get_students_by_id_throws_witness:
  "get_students bare_runtime \<lparr>searchBy = Some (QStr ''id''), query = Some (QStr ''5'')\<rparr> two_students
     = (Inl TypeError, two_students)"
  using get_students_by_id_throws [of two_students "[alice, bob]"
      "[(''id'', JNum (Finite 1700000000500)), (''name'', JStr ''bob''),
        (''rollNo'', JStr ''22''), (''universityId'', JStr ''U101''),
        (''bloodGroup'', JStr ''O-''), (''address'', JStr ''12 Lake Road''),
        (''year'', JStr ''3''), (''department'', JStr ''ECE'')]" "Finite 1700000000500" "''5''"
      bare_runtime]
  by (simp add: two_students_def bob_def)

text \<open>
  C3 (the code departs from it). The claim promises status 400 for every POST /students
  that lacks a required field. A request without a parsed body lacks all five, and gets
  no 400: \<open>req.body\<close> is \<open>undefined\<close>, the destructuring at the top of the handler throws, and
  the validation below it is never reached. Nothing is loaded, saved or logged. For
  every body that can be destructured the handler does answer 400 and return the state
  it was given (\<open>post_students_rejects\<close>, \<open>post_students_missing_field\<close>).
\<close>

theorem post_students_no_body:
  "post_students rt now JUndefined w = (Inl TypeError, w)"
  by (simp add: post_students_def destructure_def)

theorem post_students_no_body_witness:
  "post_students bare_runtime 1700000001000 JUndefined two_students
     = (Inl TypeError, two_students)
   \<and> fst (post_students bare_runtime 1700000001000 JUndefined two_students)
     \<noteq> Inr \<lparr>status = 400,
            body = Json_body (JObj [(''error'', JStr missing_fields_message)])\<rparr>"
  using post_students_no_body [of bare_runtime 1700000001000 two_students] by simp




text \<open>
  C5. \<open>loadStudents\<close> always returns a value (its result type has no error: every
  operation that can throw sits inside the \<open>try\<close>). With no file it returns the empty
  array and the file is still absent; with an empty file it returns the empty array; with
  a text that does not parse, or a read that fails, it logs the error and returns the
  empty array. GET /students over a file that does not parse answers 200 with
  \<open>{students: []}\<close>, without a query and with any query string.
\<close>

theorem loadStudents_fail_open:
  "loadStudents (w\<lparr>db_file := None\<rparr>) = (JArr [], w\<lparr>db_file := None\<rparr>)
   \<and> loadStudents (w\<lparr>db_file := Some Empty, read_fails := False\<rparr>)
       = (JArr [], w\<lparr>db_file := Some Empty, read_fails := False\<rparr>)
   \<and> loadStudents (w\<lparr>db_file := Some Malformed, read_fails := False\<rparr>)
       = (JArr [], console_log (Error_reading SyntaxError)
                    (w\<lparr>db_file := Some Malformed, read_fails := False\<rparr>))
   \<and> loadStudents (w\<lparr>db_file := Some c, read_fails := True\<rparr>)
       = (JArr [], console_log (Error_reading IOError)
                    (w\<lparr>db_file := Some c, read_fails := True\<rparr>))
   \<and> fst (get_students rt \<lparr>searchBy = sb, query = None\<rparr> (w\<lparr>db_file := Some Malformed\<rparr>))
       = Inr \<lparr>status = 200, body = Json_body (JObj [(''students'', JArr [])])\<rparr>
   \<and> fst (get_students rt \<lparr>searchBy = sb, query = Some (QStr s)\<rparr>
            (w\<lparr>db_file := Some Malformed\<rparr>))
       = Inr \<lparr>status = 200, body = Json_body (JObj [(''students'', JArr [])])\<rparr>"
  by (simp add: eval_get)

theorem loadStudents_fail_open_witness:
  "fst (get_students bare_runtime \<lparr>searchBy = Some (QStr ''name''), query = Some (QStr ''ali'')\<rparr>
         \<lparr>db_file = Some Malformed, read_fails = False, write_fails = False, console = []\<rparr>)
     = Inr \<lparr>status = 200, body = Json_body (JObj [(''students'', JArr [])])\<rparr>
   \<and> loadStudents \<lparr>db_file = Some Malformed, read_fails = False, write_fails = False, console = []\<rparr>
     = (JArr [], \<lparr>db_file = Some Malformed, read_fails = False, write_fails = False,
                  console = [Error_reading SyntaxError]\<rparr>)
   \<and> loadStudents \<lparr>db_file = None, read_fails = False, write_fails = False, console = []\<rparr>
     = (JArr [], \<lparr>db_file = None, read_fails = False, write_fails = False, console = []\<rparr>)"
  using loadStudents_fail_open
    [of "\<lparr>db_file = Some Malformed, read_fails = False, write_fails = False, console = []\<rparr>"
        Malformed bare_runtime "Some (QStr ''name'')" "''ali''"]
  by (simp add: console_log_def)

text \<open>
  C6. A POST /students that passes validation while the write fails: \<open>saveStudents\<close> logs
  the error and returns, the handler goes on to log the record and to answer 201 with
  the same body as when the write succeeds, and the file is what it was.
\<close>

theorem post_students_write_failure:
  assumes valid: "\<forall>k \<in> set [''name'', ''rollNo'', ''universityId'', ''year'', ''department''].
             truthy (read_prop rt (JObj ps) k)"
    and load: "fst (loadStudents w) = JArr xs"
    and fails: "write_fails w"
  shows "let new = newStudent now (body_fields rt (JObj ps)) in
     post_students rt now (JObj ps) w =
       (Inr \<lparr>status = 201,
             body = Json_body (JObj [(''message'', JStr ''Student added''),
                                     (''student'', json_of new)])\<rparr>,
        console_log (Added_student new)
          (console_log (Error_writing IOError) (snd (loadStudents w))))
     \<and> fst (post_students rt now (JObj ps) w)
         = fst (post_students rt now (JObj ps) (w\<lparr>write_fails := False\<rparr>))
     \<and> db_file (snd (post_students rt now (JObj ps) w)) = db_file w"
proof -
  let ?new = "newStudent now (body_fields rt (JObj ps))"
  have load': "fst (loadStudents (w\<lparr>write_fails := False\<rparr>)) = JArr xs"
    using loadStudents_same_files [of "w\<lparr>write_fails := False\<rparr>" w] load by simp
  have save: "saveStudents (JArr (xs @ [?new])) (snd (loadStudents w))
      = console_log (Error_writing IOError) (snd (loadStudents w))"
    using fails
    by (simp add: saveStudents_def writeFileSync_def JSON_stringify_def loadStudents_flags)
  have post: "post_students rt now (JObj ps) w =
       (Inr \<lparr>status = 201,
             body = Json_body (JObj [(''message'', JStr ''Student added''),
                                     (''student'', json_of ?new)])\<rparr>,
        console_log (Added_student ?new)
          (console_log (Error_writing IOError) (snd (loadStudents w))))"
    by (simp add: post_students_accepts [OF valid load] save res_json_def
          serialisable_newStudent)
  have same: "fst (post_students rt now (JObj ps) w)
         = fst (post_students rt now (JObj ps) (w\<lparr>write_fails := False\<rparr>))"
    by (simp only: post_students_accepts [OF valid load] post_students_accepts [OF valid load']
          fst_conv)
  have kept: "db_file (snd (post_students rt now (JObj ps) w)) = db_file w"
    by (simp add: post console_log_def loadStudents_db_file)
  show ?thesis
    unfolding Let_def using post same kept by blast
qed

theorem post_students_write_failure_witness:
  "fst (post_students bare_runtime 1700000001000 (JObj carol_payload)
          (two_students\<lparr>write_fails := True\<rparr>)) =
     Inr \<lparr>status = 201,
          body = Json_body (JObj [(''message'', JStr ''Student added''), (''student'', carol)])\<rparr>
   \<and> console (snd (post_students bare_runtime 1700000001000 (JObj carol_payload)
                     (two_students\<lparr>write_fails := True\<rparr>))) =
       [Error_writing IOError,
        Added_student (newStudent 1700000001000 (body_fields bare_runtime (JObj carol_payload)))]
   \<and> db_file (snd (post_students bare_runtime 1700000001000 (JObj carol_payload)
                     (two_students\<lparr>write_fails := True\<rparr>))) = Some (Json (JArr [alice, bob]))"
proof -
  let ?w = "two_students\<lparr>write_fails := True\<rparr>"
  have valid: "\<forall>k \<in> set [''name'', ''rollNo'', ''universityId'', ''year'', ''department''].
      truthy (read_prop bare_runtime (JObj carol_payload) k)"
    by (simp add: carol_payload_def)
  have load: "loadStudents ?w = (JArr [alice, bob], ?w)"
    by (simp add: two_students_def loadStudents_def existsSync_def readFileSync_def)
  then have load1: "fst (loadStudents ?w) = JArr [alice, bob]"
    by simp
  have fails: "write_fails ?w"
    by simp
  have new: "json_of (newStudent 1700000001000 (body_fields bare_runtime (JObj carol_payload)))
      = carol"
    by (simp add: newStudent_def body_fields_def carol_payload_def carol_def
          object_prototype_keys_def)
  note failure = post_students_write_failure [OF valid load1 fails, of 1700000001000,
      unfolded Let_def new load snd_conv]
  have "fst (post_students bare_runtime 1700000001000 (JObj carol_payload) ?w) =
     Inr \<lparr>status = 201,
          body = Json_body (JObj [(''message'', JStr ''Student added''), (''student'', carol)])\<rparr>"
    by (simp only: failure [THEN conjunct1] fst_conv)
  moreover have "console (snd (post_students bare_runtime 1700000001000 (JObj carol_payload) ?w)) =
       [Error_writing IOError,
        Added_student (newStudent 1700000001000 (body_fields bare_runtime (JObj carol_payload)))]"
    by (simp only: failure [THEN conjunct1] snd_conv) (simp add: console_log_def two_students_def)
  moreover have "db_file (snd (post_students bare_runtime 1700000001000 (JObj carol_payload) ?w))
      = Some (Json (JArr [alice, bob]))"
    using failure [THEN conjunct2, THEN conjunct2] by (simp add: two_students_def)
  ultimately show ?thesis
    by (intro conjI)
qed

text \<open>
  C7 (amended). A valid POST /students on a store whose file holds an array (or is absent,
  empty or unparsable, which is the empty collection), with the write succeeding. When
  the file can be read, a GET /students without filter returns
  the records it returned before the POST, in their order, followed by the record of the
  201 response with the same field values; the new record is in the collection once more
  than it was before, so exactly once unless a record identical to it (same id, same
  fields) was already stored. When the file cannot be read, the POST is still answered
  201, the file then holds the new record alone, and the GET returns an empty collection.
\<close>

theorem post_then_get:
  assumes valid: "\<forall>k \<in> set [''name'', ''rollNo'', ''universityId'', ''year'', ''department''].
             truthy (read_prop rt (JObj ps) k)"
    and stored: "db_file w = Some (Json (JArr xs))
           \<or> (xs = [] \<and> (db_file w = None \<or> db_file w = Some Empty
                           \<or> db_file w = Some Malformed))"
    and writes: "\<not> write_fails w"
    and unfiltered: "\<not> q_truthy (searchBy q) \<or> \<not> q_truthy (query q)"
  shows "let student = json_of (newStudent now (body_fields rt (JObj ps)));
             w' = snd (post_students rt now (JObj ps) w) in
     fst (post_students rt now (JObj ps) w) =
       Inr \<lparr>status = 201,
            body = Json_body (JObj [(''message'', JStr ''Student added''),
                                    (''student'', student)])\<rparr>
     \<and> (\<not> read_fails w \<longrightarrow>
          fst (get_students rt q w) =
            Inr \<lparr>status = 200, body = Json_body (JObj [(''students'', JArr (json_elems xs))])\<rparr>
          \<and> fst (get_students rt q w') =
            Inr \<lparr>status = 200,
                 body = Json_body (JObj [(''students'', JArr (json_elems xs @ [student]))])\<rparr>
          \<and> count_list (json_elems xs @ [student]) student
              = count_list (json_elems xs) student + 1)
     \<and> (read_fails w \<longrightarrow>
          db_file w' = Some (Json (JArr [student]))
          \<and> fst (get_students rt q w') =
            Inr \<lparr>status = 200, body = Json_body (JObj [(''students'', JArr [])])\<rparr>)"
proof -
  let ?new = "newStudent now (body_fields rt (JObj ps))"
  let ?w' = "snd (post_students rt now (JObj ps) w)"
  have post: "post_students rt now (JObj ps) w =
       (Inr \<lparr>status = 201,
             body = Json_body (JObj [(''message'', JStr ''Student added''),
                                     (''student'', json_of ?new)])\<rparr>,
        console_log (Added_student ?new)
          (saveStudents (JArr (ys @ [?new])) (snd (loadStudents w))))"
    if "fst (loadStudents w) = JArr ys" for ys
    by (simp add: post_students_accepts [OF valid that] res_json_def serialisable_newStudent)
  have written: "db_file ?w' = Some (Json (JArr (json_elems ys @ [json_of ?new])))"
    and flags: "read_fails ?w' = read_fails w"
    if "fst (loadStudents w) = JArr ys" for ys
    using writes
    by (simp_all add: post [OF that] console_log_def saveStudents_def writeFileSync_def
          JSON_stringify_def loadStudents_flags json_elems_append serialisable_newStudent)
  have answered: "fst (post_students rt now (JObj ps) w) =
       Inr \<lparr>status = 201,
            body = Json_body (JObj [(''message'', JStr ''Student added''),
                                    (''student'', json_of ?new)])\<rparr>"
  proof (cases "read_fails w")
    case True
    then have "fst (loadStudents w) = JArr []"
      by (intro loadStudents_stored) simp
    from post [OF this] show ?thesis by simp
  next
    case False
    with stored have "fst (loadStudents w) = JArr xs"
      by (intro loadStudents_stored) blast
    from post [OF this] show ?thesis by simp
  qed
  have readable: "fst (get_students rt q w) =
            Inr \<lparr>status = 200, body = Json_body (JObj [(''students'', JArr (json_elems xs))])\<rparr>
          \<and> fst (get_students rt q ?w') =
            Inr \<lparr>status = 200,
                 body = Json_body (JObj [(''students'', JArr (json_elems xs @ [json_of ?new]))])\<rparr>
          \<and> count_list (json_elems xs @ [json_of ?new]) (json_of ?new)
              = count_list (json_elems xs) (json_of ?new) + 1"
    if r: "\<not> read_fails w"
  proof -
    have l: "fst (loadStudents w) = JArr xs"
      using stored r by (intro loadStudents_stored) blast
    have before: "fst (get_students rt q w) =
        Inr \<lparr>status = 200, body = Json_body (JObj [(''students'', JArr (json_elems xs))])\<rparr>"
      using unfiltered by (simp add: get_students_fst l res_json_def)
    have r': "\<not> read_fails ?w'"
      using r flags [OF l] by simp
    have after: "fst (get_students rt q ?w') =
        Inr \<lparr>status = 200,
             body = Json_body (JObj [(''students'', JArr (json_elems xs @ [json_of ?new]))])\<rparr>"
      using unfiltered
      by (simp add: get_students_fst loadStudents_Json [OF written [OF l] r'] res_json_def
            json_elems_append json_of_twice serialisable_newStudent json_of_is_json
            is_json_serialisable)
    from before after show ?thesis
      by simp
  qed
  have unreadable: "db_file ?w' = Some (Json (JArr [json_of ?new]))
          \<and> fst (get_students rt q ?w') =
            Inr \<lparr>status = 200, body = Json_body (JObj [(''students'', JArr [])])\<rparr>"
    if r: "read_fails w"
  proof -
    have l: "fst (loadStudents w) = JArr []"
      using r by (intro loadStudents_stored) simp
    have after: "fst (loadStudents ?w') = JArr []"
      using r flags [OF l] by (intro loadStudents_stored) simp
    from written [OF l] after unfiltered show ?thesis
      by (simp add: get_students_fst res_json_def)
  qed
  show ?thesis
    unfolding Let_def using answered readable unreadable by blast
qed

theorem post_then_get_witness:
  "fst (post_students bare_runtime 1700000001000 (JObj carol_payload) two_students) =
     Inr \<lparr>status = 201,
          body = Json_body (JObj [(''message'', JStr ''Student added''), (''student'', carol)])\<rparr>
   \<and> fst (get_students bare_runtime \<lparr>searchBy = None, query = None\<rparr> two_students) =
     Inr \<lparr>status = 200, body = Json_body (JObj [(''students'', JArr [alice, bob])])\<rparr>
   \<and> fst (get_students bare_runtime \<lparr>searchBy = None, query = None\<rparr>
            (snd (post_students bare_runtime 1700000001000 (JObj carol_payload) two_students))) =
     Inr \<lparr>status = 200, body = Json_body (JObj [(''students'', JArr [alice, bob, carol])])\<rparr>
   \<and> count_list [alice, bob, carol] carol = 1"
proof -
  have valid: "\<forall>k \<in> set [''name'', ''rollNo'', ''universityId'', ''year'', ''department''].
      truthy (read_prop bare_runtime (JObj carol_payload) k)"
    by (simp add: carol_payload_def)
  have stored: "db_file two_students = Some (Json (JArr [alice, bob]))
           \<or> ([alice, bob] = [] \<and> (db_file two_students = None
                 \<or> db_file two_students = Some Empty
                 \<or> db_file two_students = Some Malformed))"
    and io: "\<not> write_fails two_students" "\<not> read_fails two_students"
    by (simp_all add: two_students_def)
  have unfiltered: "\<not> q_truthy (searchBy \<lparr>searchBy = None, query = None\<rparr>)
      \<or> \<not> q_truthy (query \<lparr>searchBy = None, query = None\<rparr>)"
    by simp
  have new: "json_of (newStudent 1700000001000 (body_fields bare_runtime (JObj carol_payload)))
      = carol"
    by (simp add: newStudent_def body_fields_def carol_payload_def carol_def
          object_prototype_keys_def)
  have old: "json_elems [alice, bob] = [alice, bob]"
    by (simp add: alice_def bob_def)
  have fresh: "count_list [alice, bob] carol = 0"
    by (simp add: alice_def bob_def carol_def)
  note round = post_then_get [OF valid stored io(1) unfiltered, of 1700000001000,
      unfolded Let_def new old]
  from round [THEN conjunct1] round [THEN conjunct2, THEN conjunct1, THEN mp, OF io(2)] fresh
  show ?thesis
    by simp
qed

text \<open>The claim as stated fails in two ways. Two POSTs of one payload in one millisecond,
  starting from the empty store: the record of the second response is in the collection
  twice. And a POST on the two stored records while the file cannot be read: it is
  answered 201, the file then holds the new record alone, and the GET that follows
  returns no record at all.\<close>

theorem post_twice_same_millisecond:
  "fst (post_students bare_runtime 1700000001000 (JObj carol_payload)
          (snd (post_students bare_runtime 1700000001000 (JObj carol_payload) no_students))) =
     Inr \<lparr>status = 201,
          body = Json_body (JObj [(''message'', JStr ''Student added''), (''student'', carol)])\<rparr>
   \<and> fst (get_students bare_runtime \<lparr>searchBy = None, query = None\<rparr>
            (snd (post_students bare_runtime 1700000001000 (JObj carol_payload)
               (snd (post_students bare_runtime 1700000001000 (JObj carol_payload)
                  no_students))))) =
     Inr \<lparr>status = 200, body = Json_body (JObj [(''students'', JArr [carol, carol])])\<rparr>
   \<and> count_list [carol, carol] carol = 2
   \<and> fst (post_students bare_runtime 1700000001000 (JObj carol_payload)
            (two_students\<lparr>read_fails := True\<rparr>)) =
     Inr \<lparr>status = 201,
          body = Json_body (JObj [(''message'', JStr ''Student added''), (''student'', carol)])\<rparr>
   \<and> db_file (snd (post_students bare_runtime 1700000001000 (JObj carol_payload)
                     (two_students\<lparr>read_fails := True\<rparr>))) = Some (Json (JArr [carol]))
   \<and> fst (get_students bare_runtime \<lparr>searchBy = None, query = None\<rparr>
            (snd (post_students bare_runtime 1700000001000 (JObj carol_payload)
               (two_students\<lparr>read_fails := True\<rparr>)))) =
     Inr \<lparr>status = 200, body = Json_body (JObj [(''students'', JArr [])])\<rparr>"
  by (simp add: eval_post get_students_def no_students_def two_students_def carol_payload_def
        carol_def)

text \<open>
  C8. The response of GET /students is a function of the request, the content of the
  file and whether it can be read: two states that agree on these give the same
  response, and a second GET right after the first (which has changed nothing but the
  console) gives the response of the first.
\<close>

theorem get_students_twice:
  "(db_file w = db_file w' \<and> read_fails w = read_fails w'
      \<longrightarrow> fst (get_students rt q w) = fst (get_students rt q w'))
   \<and> fst (get_students rt q (snd (get_students rt q w))) = fst (get_students rt q w)"
proof -
  have files: "db_file (snd (get_students rt q w)) = db_file w"
    "read_fails (snd (get_students rt q w)) = read_fails w"
    by (simp_all add: get_students_snd loadStudents_db_file loadStudents_flags)
  show ?thesis
    using get_students_same_files [of w w' rt q]
      get_students_same_files [OF files, of rt q] by blast
qed

theorem get_students_twice_witness:
  "fst (get_students bare_runtime \<lparr>searchBy = Some (QStr ''name''), query = Some (QStr ''ali'')\<rparr>
     (snd (get_students bare_runtime
             \<lparr>searchBy = Some (QStr ''name''), query = Some (QStr ''ali'')\<rparr> two_students)))
   = Inr \<lparr>status = 200, body = Json_body (JObj [(''students'', JArr [alice])])\<rparr>"
  using get_students_twice [of two_students two_students bare_runtime
      "\<lparr>searchBy = Some (QStr ''name''), query = Some (QStr ''ali'')\<rparr>"]
  by (simp add: eval_get two_students_def alice_def bob_def)

text \<open>
  C9. When the file holds JSON that is not an array, \<open>loadStudents\<close> returns that value as it
  is and logs nothing. A valid POST /students then throws at \<open>students.push\<close>: no response,
  no save, no log, where the same request over the empty array is answered 201.
\<close>

theorem non_array_document:
  assumes stored: "db_file w = Some (Json v)"
    and readable: "\<not> read_fails w"
    and not_array: "\<forall>xs. v \<noteq> JArr xs"
    and valid: "\<forall>k \<in> set [''name'', ''rollNo'', ''universityId'', ''year'', ''department''].
             truthy (read_prop rt (JObj ps) k)"
  shows "loadStudents w = (v, w)
     \<and> post_students rt now (JObj ps) w = (Inl TypeError, w)
     \<and> fst (post_students rt now (JObj ps) (w\<lparr>db_file := Some (Json (JArr []))\<rparr>)) =
         Inr (res_json 201 (JObj [(''message'', JStr ''Student added''),
                (''student'', newStudent now (body_fields rt (JObj ps)))]))"
proof -
  have load: "loadStudents w = (v, w)"
    by (rule loadStudents_Json [OF stored readable])
  have post: "post_students rt now (JObj ps) w = (Inl TypeError, w)"
    using required_truthy [OF valid]
    by (subst post_students_def)
       (simp add: destructure_def load array_push_not_array [OF not_array])
  have "fst (loadStudents (w\<lparr>db_file := Some (Json (JArr []))\<rparr>)) = JArr []"
    using readable by (simp add: loadStudents_Json)
  from post_students_accepts [OF valid this] load post show ?thesis
    by simp
qed

theorem non_array_document_witness:
  "loadStudents \<lparr>db_file = Some (Json (JObj [])), read_fails = False, write_fails = False,
                  console = []\<rparr>
     = (JObj [], \<lparr>db_file = Some (Json (JObj [])), read_fails = False, write_fails = False,
                   console = []\<rparr>)
   \<and> post_students bare_runtime 1700000001000 (JObj carol_payload)
        \<lparr>db_file = Some (Json (JObj [])), read_fails = False, write_fails = False, console = []\<rparr>
     = (Inl TypeError,
        \<lparr>db_file = Some (Json (JObj [])), read_fails = False, write_fails = False, console = []\<rparr>)
   \<and> post_students bare_runtime 1700000001000 (JObj carol_payload)
        \<lparr>db_file = Some (Json (JStr ''students'')), read_fails = False, write_fails = False,
          console = []\<rparr>
     = (Inl TypeError,
        \<lparr>db_file = Some (Json (JStr ''students'')), read_fails = False, write_fails = False,
          console = []\<rparr>)"
proof -
  have valid: "\<forall>k \<in> set [''name'', ''rollNo'', ''universityId'', ''year'', ''department''].
      truthy (read_prop bare_runtime (JObj carol_payload) k)"
    by (simp add: carol_payload_def)
  show ?thesis
    using non_array_document [of
        "\<lparr>db_file = Some (Json (JObj [])), read_fails = False, write_fails = False, console = []\<rparr>"
        "JObj []" bare_runtime carol_payload 1700000001000, OF _ _ _ valid]
      non_array_document [of
        "\<lparr>db_file = Some (Json (JStr ''students'')), read_fails = False, write_fails = False,
          console = []\<rparr>"
        "JStr ''students''" bare_runtime carol_payload 1700000001000, OF _ _ _ valid]
    by simp
qed

text \<open>
  C10. The read routes leave the store alone. GET / returns the state it was given.
  GET /students, for every request and every state, returns a state with the same file
  content; the console is the only part of the state that can differ (a failed load is
  logged).
\<close>

theorem read_routes_keep_store:
  "snd (get_root w) = w
   \<and> db_file (snd (get_students rt q w)) = db_file w
   \<and> snd (get_students rt q w) = w\<lparr>console := console (snd (get_students rt q w))\<rparr>"
  using loadStudents_snd [of w]
  by (simp add: get_root_def get_students_snd loadStudents_db_file)

theorem read_routes_keep_store_witness:
  "snd (get_root two_students) = two_students
   \<and> db_file (snd (get_students bare_runtime
        \<lparr>searchBy = Some (QStr ''id''), query = Some (QStr ''17'')\<rparr> two_students))
     = Some (Json (JArr [alice, bob]))"
  using read_routes_keep_store [of two_students bare_runtime
      "\<lparr>searchBy = Some (QStr ''id''), query = Some (QStr ''17'')\<rparr>"]
  by (simp add: two_students_def)

end
